theory Spec2Isabelle
  imports Complex_Main "HOL-Library.Word" "HOL-Library.Char_ord" "HOL-Library.List_Lexorder"
    "HOL-Library.Log_Nat"
begin

unbundle bit_operations_syntax

section \<open>JavaScript numbers\<close>

text \<open>
  A JavaScript \<open>number\<close> is an IEEE double: a finite value, one of the two infinities,
  or NaN. Every finite double is a rational, so finite values are modelled as \<open>rat\<close>; the
  sign of zero is outside the model. \<open>Math.round\<close>, \<open>Math.min\<close>, \<open>Math.max\<close> and the
  comparisons are exact on doubles, so for them the model is the ECMAScript definition.
  The operations \<open>js_add\<close>, \<open>js_sub\<close>, \<open>js_mul\<close> and \<open>js_div\<close> give the exact result; the
  operations of the program are these followed by the rounding to the nearest double
  (\<open>fl_add\<close> and so on, below). The exact ones stand for them only where the result is
  a double anyway (a channel number minus one, an address plus an index) or where the
  rounding cannot change the byte computed (the master scaling, see
  \<open>effective_rounding_margin\<close>).
\<close>

datatype number = NaN | NegInf | Fin rat | PosInf

type_synonym byte = "8 word"

fun js_lt :: "number \<Rightarrow> number \<Rightarrow> bool" where
  "js_lt NaN _ = False"
| "js_lt _ NaN = False"
| "js_lt PosInf _ = False"
| "js_lt _ NegInf = False"
| "js_lt NegInf _ = True"
| "js_lt _ PosInf = True"
| "js_lt (Fin a) (Fin b) = (a < b)"

fun js_le :: "number \<Rightarrow> number \<Rightarrow> bool" where
  "js_le NaN _ = False"
| "js_le _ NaN = False"
| "js_le NegInf _ = True"
| "js_le _ PosInf = True"
| "js_le PosInf _ = False"
| "js_le _ NegInf = False"
| "js_le (Fin a) (Fin b) = (a \<le> b)"

definition js_gt :: "number \<Rightarrow> number \<Rightarrow> bool" where
  "js_gt a b = js_lt b a"

definition js_ge :: "number \<Rightarrow> number \<Rightarrow> bool" where
  "js_ge a b = js_le b a"

fun Math_round :: "number \<Rightarrow> number" where
  "Math_round (Fin r) = Fin (of_int \<lfloor>r + 1 / 2\<rfloor>)"
| "Math_round x = x"

fun Math_min :: "number \<Rightarrow> number \<Rightarrow> number" where
  "Math_min NaN _ = NaN"
| "Math_min _ NaN = NaN"
| "Math_min a b = (if js_lt b a then b else a)"

fun Math_max :: "number \<Rightarrow> number \<Rightarrow> number" where
  "Math_max NaN _ = NaN"
| "Math_max _ NaN = NaN"
| "Math_max a b = (if js_lt a b then b else a)"

fun js_neg :: "number \<Rightarrow> number" where
  "js_neg NaN = NaN"
| "js_neg NegInf = PosInf"
| "js_neg PosInf = NegInf"
| "js_neg (Fin a) = Fin (- a)"

fun js_add :: "number \<Rightarrow> number \<Rightarrow> number" where
  "js_add NaN _ = NaN"
| "js_add _ NaN = NaN"
| "js_add PosInf NegInf = NaN"
| "js_add NegInf PosInf = NaN"
| "js_add PosInf _ = PosInf"
| "js_add _ PosInf = PosInf"
| "js_add NegInf _ = NegInf"
| "js_add _ NegInf = NegInf"
| "js_add (Fin a) (Fin b) = Fin (a + b)"

definition js_sub :: "number \<Rightarrow> number \<Rightarrow> number" where
  "js_sub a b = js_add a (js_neg b)"

text \<open>The sign of a number, for the products and quotients with an infinity.\<close>

fun js_sign :: "number \<Rightarrow> int" where
  "js_sign NaN = 0"
| "js_sign NegInf = - 1"
| "js_sign PosInf = 1"
| "js_sign (Fin a) = (if a < 0 then - 1 else if a = 0 then 0 else 1)"

definition signed_inf :: "int \<Rightarrow> number" where
  "signed_inf s = (if s = 0 then NaN else if s < 0 then NegInf else PosInf)"

fun js_mul :: "number \<Rightarrow> number \<Rightarrow> number" where
  "js_mul NaN _ = NaN"
| "js_mul _ NaN = NaN"
| "js_mul (Fin a) (Fin b) = Fin (a * b)"
| "js_mul a b = signed_inf (js_sign a * js_sign b)"

text \<open>
  Division. A zero divisor is taken as \<open>+0\<close>; no division of the program has a zero
  divisor (the divisors are the constant 255 and a duration already tested positive).
\<close>

fun js_div :: "number \<Rightarrow> number \<Rightarrow> number" where
  "js_div NaN _ = NaN"
| "js_div _ NaN = NaN"
| "js_div (Fin a) (Fin b) = (if b = 0 then signed_inf (js_sign (Fin a)) else Fin (a / b))"
| "js_div (Fin a) _ = Fin 0"
| "js_div a (Fin b) = signed_inf (js_sign a * (if b < 0 then - 1 else 1))"
| "js_div _ _ = NaN"

text \<open>\<open>x || 0\<close> on a possibly missing array entry: undefined, NaN and 0 are falsy.\<close>

fun or_zero :: "number option \<Rightarrow> number" where
  "or_zero None = Fin 0"
| "or_zero (Some NaN) = Fin 0"
| "or_zero (Some x) = x"

text \<open>Reading index \<open>i\<close> of a plain array: \<open>undefined\<close> (here \<open>None\<close>) past the end.\<close>

definition array_read :: "'a list \<Rightarrow> nat \<Rightarrow> 'a option" where
  "array_read xs i = (if i < length xs then Some (xs ! i) else None)"

subsection \<open>Rounding to the nearest double\<close>

text \<open>
  A finite double is \<open>m * 2^(e - 52)\<close> with an integer \<open>m\<close> of magnitude below \<open>2^53\<close> and
  \<open>-1022 \<le> e \<le> 1023\<close>. \<open>to_double\<close> rounds a rational to the nearest double, ties to the
  even significand: \<open>double_exponent\<close> is the exponent \<open>e\<close> with \<open>2^e \<le> a < 2^(e + 1)\<close>,
  kept at \<open>-1022\<close> for the subnormal numbers, and what rounds to \<open>2^1024\<close> or more is an
  infinity.
\<close>

definition pow2 :: "int \<Rightarrow> rat" where
  "pow2 i = (if 0 \<le> i then 2 ^ nat i else 1 / 2 ^ nat (- i))"

definition round_half_even :: "rat \<Rightarrow> int" where
  "round_half_even r =
     (let f = \<lfloor>r\<rfloor>; d = r - of_int f
      in if d < 1 / 2 then f else if 1 / 2 < d then f + 1 else if even f then f else f + 1)"

definition double_exponent :: "rat \<Rightarrow> int" where
  "double_exponent a =
     (let e0 = bitlen (fst (quotient_of a)) - bitlen (snd (quotient_of a))
      in if pow2 e0 \<le> a then e0 else e0 - 1)"

definition to_double :: "rat \<Rightarrow> number" where
  "to_double x =
     (if x = 0 then Fin 0
      else let a = \<bar>x\<bar>;
               e = max (double_exponent a) (- 1022);
               q = pow2 (e - 52);
               m = round_half_even (a / q)
           in if 1024 \<le> e \<or> (e = 1023 \<and> m = 2 ^ 53)
              then (if x < 0 then NegInf else PosInf)
              else Fin (sgn x * of_int m * q))"

fun fl :: "number \<Rightarrow> number" where
  "fl (Fin r) = to_double r"
| "fl x = x"

definition fl_add :: "number \<Rightarrow> number \<Rightarrow> number" where
  "fl_add a b = fl (js_add a b)"

definition fl_sub :: "number \<Rightarrow> number \<Rightarrow> number" where
  "fl_sub a b = fl (js_sub a b)"

definition fl_mul :: "number \<Rightarrow> number \<Rightarrow> number" where
  "fl_mul a b = fl (js_mul a b)"

definition fl_div :: "number \<Rightarrow> number \<Rightarrow> number" where
  "fl_div a b = fl (js_div a b)"

subsection \<open>Typed arrays\<close>

text \<open>
  A \<open>Uint8Array\<close> is a list of bytes. Storing a number converts it with ToUint8: NaN and
  the infinities become 0, a finite value is truncated towards zero and taken modulo 256.
  A store at a key that is not an integer index inside the array does nothing.
\<close>

definition truncate_rat :: "rat \<Rightarrow> int" where
  "truncate_rat r = (if 0 \<le> r then \<lfloor>r\<rfloor> else \<lceil>r\<rceil>)"

fun toUint8 :: "number \<Rightarrow> byte" where
  "toUint8 (Fin r) = word_of_int (truncate_rat r)"
| "toUint8 _ = 0"

definition typed_store_at :: "byte list \<Rightarrow> nat \<Rightarrow> number \<Rightarrow> byte list" where
  "typed_store_at xs i v = (if i < length xs then xs[i := toUint8 v] else xs)"

fun typed_store :: "byte list \<Rightarrow> number \<Rightarrow> number \<Rightarrow> byte list" where
  "typed_store xs (Fin k) v =
     (if 0 \<le> k \<and> of_int \<lfloor>k\<rfloor> = k then typed_store_at xs (nat \<lfloor>k\<rfloor>) v else xs)"
| "typed_store xs _ v = xs"

text \<open>Reading a typed array inside an arithmetic expression: \<open>undefined\<close> acts as NaN.\<close>

definition typed_read :: "byte list \<Rightarrow> nat \<Rightarrow> number" where
  "typed_read xs i = (if i < length xs then Fin (of_nat (unat (xs ! i))) else NaN)"

definition clamp_byte :: "number \<Rightarrow> number" where
  "clamp_byte v = Math_max (Fin 0) (Math_min (Fin 255) (Math_round v))"

section \<open>DMXUniverse\<close>

text \<open>
  The class has the fields \<open>channels\<close>, \<open>masterDimmer\<close> and \<open>listeners\<close>. A listener is
  identified by a number. What the class does to the outside is recorded in three more
  fields: \<open>notified\<close> has one entry per run of \<open>notifyListeners\<close> (the snapshot handed out),
  \<open>calls\<close> one entry per listener invocation, \<open>warnings\<close> the channel numbers given to
  \<open>log.warn\<close>.
\<close>

record universe =
  channels :: "byte list"
  masterDimmer :: number
  listeners :: "nat list"
  notified :: "byte list list"
  calls :: "(nat \<times> byte list) list"
  warnings :: "number list"

definition new_universe :: universe where
  "new_universe = \<lparr>channels = replicate 512 0, masterDimmer = Fin 255, listeners = [],
     notified = [], calls = [], warnings = []\<rparr>"

definition getState :: "universe \<Rightarrow> byte list" where
  "getState u =
     (let masterScale = js_div (masterDimmer u) (Fin 255)
      in map (\<lambda>i. toUint8 (Math_round (js_mul (typed_read (channels u) i) masterScale)))
           [0..<512])"

definition getRawState :: "universe \<Rightarrow> byte list" where
  "getRawState u = channels u"

definition getMasterDimmer :: "universe \<Rightarrow> number" where
  "getMasterDimmer u = masterDimmer u"

definition notifyListeners :: "universe \<Rightarrow> universe" where
  "notifyListeners u =
     (let state = getState u
      in u\<lparr>notified := notified u @ [state],
           calls := calls u @ map (\<lambda>l. (l, state)) (listeners u)\<rparr>)"

definition setChannel :: "number \<Rightarrow> number \<Rightarrow> universe \<Rightarrow> universe" where
  "setChannel channel v u =
     (if js_lt channel (Fin 1) \<or> js_gt channel (Fin 512)
      then u\<lparr>warnings := warnings u @ [channel]\<rparr>
      else let clamped = clamp_byte v
           in notifyListeners
                (u\<lparr>channels := typed_store (channels u) (js_sub channel (Fin 1)) clamped\<rparr>))"

text \<open>
  \<open>setChannels\<close> receives the entries of its argument object in the order of
  \<open>Object.entries\<close>, each key already converted by \<open>Number\<close>.
\<close>

fun setChannels_loop :: "(number \<times> number) list \<Rightarrow> byte list \<Rightarrow> byte list" where
  "setChannels_loop [] chs = chs"
| "setChannels_loop ((ch, v) # rest) chs =
     setChannels_loop rest
       (if js_ge ch (Fin 1) \<and> js_le ch (Fin 512)
        then typed_store chs (js_sub ch (Fin 1)) (clamp_byte v)
        else chs)"

definition setChannels :: "(number \<times> number) list \<Rightarrow> universe \<Rightarrow> universe" where
  "setChannels vals u = notifyListeners (u\<lparr>channels := setChannels_loop vals (channels u)\<rparr>)"

definition setMasterDimmer :: "number \<Rightarrow> universe \<Rightarrow> universe" where
  "setMasterDimmer v u = notifyListeners (u\<lparr>masterDimmer := clamp_byte v\<rparr>)"

definition onChange :: "nat \<Rightarrow> universe \<Rightarrow> universe" where
  "onChange cb u = (if cb \<in> set (listeners u) then u else u\<lparr>listeners := listeners u @ [cb]\<rparr>)"

definition offChange :: "nat \<Rightarrow> universe \<Rightarrow> universe" where
  "offChange cb u = u\<lparr>listeners := removeAll cb (listeners u)\<rparr>"

fun applySnapshot_loop :: "number list \<Rightarrow> nat list \<Rightarrow> byte list \<Rightarrow> byte list" where
  "applySnapshot_loop snapshot [] chs = chs"
| "applySnapshot_loop snapshot (i # is) chs =
     applySnapshot_loop snapshot is
       (typed_store_at chs i (clamp_byte (or_zero (array_read snapshot i))))"

definition applySnapshot :: "number list \<Rightarrow> universe \<Rightarrow> universe" where
  "applySnapshot snapshot u =
     notifyListeners (u\<lparr>channels := applySnapshot_loop snapshot [0..<512] (channels u)\<rparr>)"

definition blackout :: "universe \<Rightarrow> universe" where
  "blackout u = notifyListeners (u\<lparr>channels := map (\<lambda>_. 0) (channels u)\<rparr>)"

definition getRawChannelsArray :: "universe \<Rightarrow> number list" where
  "getRawChannelsArray u = map (\<lambda>b. Fin (of_nat (unat b))) (channels u)"

text \<open>A sequence of mutator calls, as a client of the class issues them.\<close>

datatype op = SetChannel number number | SetChannels "(number \<times> number) list"
  | ApplySnapshot "number list" | SetMasterDimmer number | Blackout

fun apply_op :: "universe \<Rightarrow> op \<Rightarrow> universe" where
  "apply_op u (SetChannel c v) = setChannel c v u"
| "apply_op u (SetChannels vals) = setChannels vals u"
| "apply_op u (ApplySnapshot s) = applySnapshot s u"
| "apply_op u (SetMasterDimmer v) = setMasterDimmer v u"
| "apply_op u Blackout = blackout u"

definition run_ops :: "op list \<Rightarrow> universe \<Rightarrow> universe" where
  "run_ops ops u = foldl apply_op u ops"

definition in_byte_range :: "number \<Rightarrow> bool" where
  "in_byte_range x = (js_le (Fin 0) x \<and> js_le x (Fin 255))"

definition in_channel_range :: "number \<times> number \<Rightarrow> bool" where
  "in_channel_range e = (js_ge (fst e) (Fin 1) \<and> js_le (fst e) (Fin 512))"

text \<open>Scenario S2 of the specification: channel 1 at 200, master at 128.\<close>

definition scenario_S2 :: universe where
  "scenario_S2 = setMasterDimmer (Fin 128) (setChannel (Fin 1) (Fin 200) new_universe)"

text \<open>A universe with one listener, and two batches for \<open>setChannels\<close>.\<close>

definition listening_universe :: universe where
  "listening_universe = onChange 7 new_universe"

definition sample_batch :: "(number \<times> number) list" where
  "sample_batch = [(Fin 1, Fin 10), (Fin 2, Fin 20)]"

definition skipped_batch :: "(number \<times> number) list" where
  "skipped_batch = [(Fin 0, Fin 5), (Fin 513, Fin 9), (NaN, Fin 1)]"

section \<open>DMXDriver\<close>

subsection \<open>The Enttec frame\<close>

definition DMX_PRO_START_MSG :: byte where "DMX_PRO_START_MSG = 0x7E"
definition DMX_PRO_END_MSG :: byte where "DMX_PRO_END_MSG = 0xE7"
definition DMX_PRO_SEND_LABEL :: byte where "DMX_PRO_SEND_LABEL = 6"

text \<open>
  A \<open>Buffer\<close> is a byte array; a store outside it does nothing. The lengths involved are
  far below \<open>2^31\<close>, where \<open>&\<close> and \<open>>>\<close> on the 32-bit conversion agree with the
  operations on naturals.
\<close>

definition buf_set :: "byte list \<Rightarrow> nat \<Rightarrow> byte \<Rightarrow> byte list" where
  "buf_set buf i b = (if i < length buf then buf[i := b] else buf)"

fun copy_channels :: "byte list \<Rightarrow> nat list \<Rightarrow> byte list \<Rightarrow> byte list" where
  "copy_channels chs [] packet = packet"
| "copy_channels chs (i # is) packet = copy_channels chs is (buf_set packet (5 + i) (chs ! i))"

definition buildDMXPacket :: "byte list \<Rightarrow> byte list" where
  "buildDMXPacket chs =
     (let dataLength = length chs + 1;
          packet = replicate (dataLength + 5) 0;
          packet = buf_set packet 0 DMX_PRO_START_MSG;
          packet = buf_set packet 1 DMX_PRO_SEND_LABEL;
          packet = buf_set packet 2 (of_nat (dataLength AND 0xff));
          packet = buf_set packet 3 (of_nat (drop_bit 8 dataLength AND 0xff));
          packet = buf_set packet 4 0x00;
          packet = copy_channels chs [0..<length chs] packet
      in buf_set packet (length packet - 1) DMX_PRO_END_MSG)"

subsection \<open>Reconnection\<close>

text \<open>
  The fields of the driver that the reconnection logic reads and writes. \<open>reconnectTimer\<close>
  holds the delay of the pending timeout; \<open>scheduled\<close> records every delay handed to
  \<open>setTimeout\<close>, oldest first. A serial port is identified by its path.
\<close>

record driver =
  serialPort :: "string option"
  reconnectTimer :: "nat option"
  reconnectDelay :: nat
  isConnected :: bool
  portPath :: "string option"
  isShuttingDown :: bool
  scheduled :: "nat list"

definition maxReconnectDelay :: nat where "maxReconnectDelay = 30000"

definition new_driver :: driver where
  "new_driver = \<lparr>serialPort = None, reconnectTimer = None, reconnectDelay = 1000,
     isConnected = False, portPath = None, isShuttingDown = False, scheduled = []\<rparr>"

definition startReconnection :: "driver \<Rightarrow> driver" where
  "startReconnection d =
     (if isShuttingDown d then d
      else d\<lparr>reconnectTimer := Some (reconnectDelay d),
             scheduled := scheduled d @ [reconnectDelay d]\<rparr>)"

text \<open>
  What \<open>connect\<close> meets: the port opens (the \<open>open\<close> event), \<open>open\<close> reports an error to
  its callback, or creating the port throws.
\<close>

datatype open_result = Opened | OpenFailed | ConnectThrew

fun connect :: "string \<Rightarrow> open_result \<Rightarrow> driver \<Rightarrow> driver" where
  "connect path Opened d =
     d\<lparr>serialPort := Some path, isConnected := True, portPath := Some path,
       reconnectDelay := 1000\<rparr>"
| "connect path OpenFailed d = startReconnection (d\<lparr>serialPort := None\<rparr>)"
| "connect path ConnectThrew d = startReconnection d"

text \<open>
  The timeout set by \<open>startReconnection\<close> fires: \<open>detectDevice\<close> finds no port, or finds
  one and \<open>connect\<close> runs on it.
\<close>

datatype attempt = NoDevice | Detected string open_result

fun reconnect_timeout :: "attempt \<Rightarrow> driver \<Rightarrow> driver" where
  "reconnect_timeout NoDevice d =
     startReconnection (d\<lparr>reconnectDelay := min (reconnectDelay d * 2) maxReconnectDelay\<rparr>)"
| "reconnect_timeout (Detected path r) d = connect path r d"

text \<open>The \<open>close\<close> event of the serial port.\<close>

definition port_closed :: "driver \<Rightarrow> driver" where
  "port_closed d =
     (if \<not> isShuttingDown d
      then startReconnection (d\<lparr>isConnected := False, portPath := None, serialPort := None\<rparr>)
      else d)"

definition run_attempts :: "attempt list \<Rightarrow> driver \<Rightarrow> driver" where
  "run_attempts as d = foldl (\<lambda>d a. reconnect_timeout a d) d as"

section \<open>PresetManager\<close>

text \<open>
  The store is \<open>electron-store\<close>: \<open>set\<close> writes the value of a key as JSON text and \<open>get\<close>
  parses that text. A finite number comes back as it was written; NaN and the infinities
  are written as \<open>null\<close>. A preset read from the store may therefore hold \<open>null\<close> where the
  interface \<open>Preset\<close> declares a number: \<open>None\<close> in the channel entries and in the fade
  time. The store is modelled as the list of presets that \<open>get('presets')\<close> parses.
\<close>

record preset =
  p_id :: string
  p_name :: string
  p_channels :: "number option list"
  p_fadeTime :: "number option"
  p_color :: string
  p_fixtureModes :: "(string \<times> string) list option"
  p_createdAt :: string
  p_updatedAt :: string

fun json_number :: "number option \<Rightarrow> number option" where
  "json_number (Some (Fin r)) = Some (Fin r)"
| "json_number _ = None"

definition json_preset :: "preset \<Rightarrow> preset" where
  "json_preset p =
     p\<lparr>p_channels := map json_number (p_channels p), p_fadeTime := json_number (p_fadeTime p)\<rparr>"

definition store_set :: "preset list \<Rightarrow> preset list" where
  "store_set presets = map json_preset presets"

text \<open>
  Modelled from the spec: \<open>uuidv4\<close>, of the package \<open>uuid\<close>, which is not among the sources.
  The specification has \<open>create\<close> "assign fresh id": the identifier is not that of a
  preset in the store. The model takes the identifiers in use and returns a text longer
  than each of them.
\<close>

definition uuidv4 :: "string list \<Rightarrow> string" where
  "uuidv4 used = replicate (Suc (foldr (\<lambda>x. max (length x)) used 0)) (CHR ''0'')"

definition PresetManager_getAll :: "preset list \<Rightarrow> preset list" where
  "PresetManager_getAll store = store"

definition PresetManager_getById :: "string \<Rightarrow> preset list \<Rightarrow> preset option" where
  "PresetManager_getById ident store = find (\<lambda>p. p_id p = ident) (PresetManager_getAll store)"

text \<open>The loop \<open>while (preset.channels.length < 512) preset.channels.push(0)\<close>.\<close>

function pad_channels :: "number option list \<Rightarrow> number option list" where
  "pad_channels chs = (if length chs < 512 then pad_channels (chs @ [Some (Fin 0)]) else chs)"
  by pat_completeness auto
termination
  by (relation "measure (\<lambda>chs. 512 - length chs)") auto

text \<open>
  \<open>create\<close> returns the preset it has built and writes the extended list to the store.
  The two timestamps are the clock at the two calls of \<open>new Date()\<close>.
\<close>

definition PresetManager_create ::
  "string \<Rightarrow> number list \<Rightarrow> number \<Rightarrow> string \<Rightarrow> (string \<times> string) list option \<Rightarrow>
   string \<Rightarrow> string \<Rightarrow> preset list \<Rightarrow> preset \<times> preset list" where
  "PresetManager_create name chs fadeTime color fixtureModes now1 now2 store =
     (let preset = \<lparr>p_id = uuidv4 (map p_id (PresetManager_getAll store)), p_name = name,
                     p_channels = map Some (take 512 chs),
                     p_fadeTime = Some fadeTime, p_color = color, p_fixtureModes = fixtureModes,
                     p_createdAt = now1, p_updatedAt = now2\<rparr>;
          preset = preset\<lparr>p_channels := pad_channels (p_channels preset)\<rparr>;
          presets = PresetManager_getAll store
      in (preset, store_set (presets @ [preset])))"

definition captureFromUniverse ::
  "string \<Rightarrow> universe \<Rightarrow> number \<Rightarrow> string \<Rightarrow> (string \<times> string) list option \<Rightarrow>
   string \<Rightarrow> string \<Rightarrow> preset list \<Rightarrow> preset \<times> preset list" where
  "captureFromUniverse name u fadeTime color fixtureModes now1 now2 store =
     PresetManager_create name (getRawChannelsArray u) fadeTime color fixtureModes now1 now2 store"


section \<open>FixtureManager\<close>

text \<open>
  The fields of a profile, a mode and a fixture that \<open>getAll\<close> and \<open>setActiveMode\<close> read or
  write; the others (controls, icons, colour mode, canvas layout) are carried along
  unchanged and are left out. An object is an association list in the order of its keys.
\<close>

record profile_mode =
  m_name :: string
  m_channelValue :: number
  m_defaults :: "(string \<times> number) list option"

record fixture_profile =
  fp_fixture :: string
  fp_channelCount :: number
  fp_modeChannel :: "string option"
  fp_channels :: "(string \<times> string \<times> string) list"
  fp_modes :: "profile_mode list"

record fixture =
  f_id :: string
  f_name :: string
  f_type :: string
  f_channels :: "(string \<times> number) list"
  f_createdAt :: string
  f_updatedAt :: string
  f_profile :: "fixture_profile option"
  f_startAddress :: "number option"
  f_activeMode :: "string option"

record fixture_manager =
  fixtures :: "fixture list"
  bundledProfiles :: "(string \<times> fixture_profile) list"

datatype fm_error = FixtureNotFound string | NotProfileFixture string | ModeNotFound string string

text \<open>\<open>findIndex\<close> and \<open>indexOf\<close>: \<open>None\<close> stands for \<open>-1\<close>.\<close>

fun findIndex :: "('a \<Rightarrow> bool) \<Rightarrow> 'a list \<Rightarrow> nat option" where
  "findIndex P [] = None"
| "findIndex P (x # xs) = (if P x then Some 0 else map_option Suc (findIndex P xs))"

definition indexOf :: "'a list \<Rightarrow> 'a \<Rightarrow> nat option" where
  "indexOf xs x = findIndex (\<lambda>y. y = x) xs"

definition findBundledProfileByFixtureName ::
  "fixture_manager \<Rightarrow> string \<Rightarrow> fixture_profile option" where
  "findBundledProfileByFixtureName fm fixtureName =
     (if fixtureName = [] then None
      else find (\<lambda>profile. fp_fixture profile = fixtureName) (map snd (bundledProfiles fm)))"

text \<open>
  One step of the \<open>map\<close> in \<open>getAll\<close>: the fixture with its profile replaced by the bundled
  one of the same name, and whether the two differed.
\<close>

definition sync_profile :: "fixture_manager \<Rightarrow> fixture \<Rightarrow> fixture \<times> bool" where
  "sync_profile fm f =
     (case f_profile f of
        None \<Rightarrow> (f, False)
      | Some profile \<Rightarrow>
          (let targetName = (if fp_fixture profile \<noteq> [] then fp_fixture profile else f_type f)
           in case findBundledProfileByFixtureName fm targetName of
                None \<Rightarrow> (f, False)
              | Some bundledProfile \<Rightarrow>
                  if profile \<noteq> bundledProfile
                  then (f\<lparr>f_profile := Some bundledProfile\<rparr>, True)
                  else (f, False)))"

definition FixtureManager_getAll :: "fixture_manager \<Rightarrow> fixture list \<times> fixture_manager" where
  "FixtureManager_getAll fm =
     (let synced = map (sync_profile fm) (fixtures fm);
          updatedFixtures = map fst synced;
          didUpdate = (\<exists>r \<in> set synced. snd r)
      in (updatedFixtures, if didUpdate then fm\<lparr>fixtures := updatedFixtures\<rparr> else fm))"

text \<open>Truthiness of an optional string and of an optional number.\<close>

fun truthy_string :: "string option \<Rightarrow> bool" where
  "truthy_string None = False"
| "truthy_string (Some s) = (s \<noteq> [])"

fun truthy_number :: "number option \<Rightarrow> bool" where
  "truthy_number None = False"
| "truthy_number (Some NaN) = False"
| "truthy_number (Some (Fin r)) = (r \<noteq> 0)"
| "truthy_number (Some _) = True"

text \<open>The loop over \<open>Object.entries(mode.defaults)\<close>.\<close>

fun default_writes :: "string list \<Rightarrow> number \<Rightarrow> (string \<times> number) list \<Rightarrow> (number \<times> number) list"
  where
  "default_writes channelKeys startAddress [] = []"
| "default_writes channelKeys startAddress ((chKey, val) # rest) =
     (case indexOf channelKeys chKey of
        None \<Rightarrow> default_writes channelKeys startAddress rest
      | Some chIndex \<Rightarrow>
          (js_add startAddress (Fin (of_nat chIndex)), val)
            # default_writes channelKeys startAddress rest)"

definition setActiveMode ::
  "string \<Rightarrow> string \<Rightarrow> string \<Rightarrow> fixture_manager \<Rightarrow>
   (fm_error + (number \<times> number) list) \<times> fixture_manager" where
  "setActiveMode fixtureId modeName now fm =
     (let (fs, fm1) = FixtureManager_getAll fm
      in case findIndex (\<lambda>f. f_id f = fixtureId) fs of
           None \<Rightarrow> (Inl (FixtureNotFound fixtureId), fm1)
         | Some index \<Rightarrow>
             (let fixture = fs ! index
              in case f_profile fixture of
                   None \<Rightarrow> (Inl (NotProfileFixture (f_name fixture)), fm1)
                 | Some profile \<Rightarrow>
                     (case find (\<lambda>m. m_name m = modeName) (fp_modes profile) of
                        None \<Rightarrow> (Inl (ModeNotFound modeName (fp_fixture profile)), fm1)
                      | Some mode \<Rightarrow>
                          if \<not> truthy_string (fp_modeChannel profile) then (Inr [], fm1)
                          else
                            (let channelKeys = sort (map fst (fp_channels profile));
                                 modeChannelIndex =
                                   indexOf channelKeys (the (fp_modeChannel profile))
                             in if modeChannelIndex = None
                                   \<or> \<not> truthy_number (f_startAddress fixture)
                                then (Inr [], fm1)
                                else
                                  (let startAddress = the (f_startAddress fixture);
                                       dmxChannel =
                                         js_add startAddress (Fin (of_nat (the modeChannelIndex)));
                                       results =
                                         (dmxChannel, m_channelValue mode)
                                           # (case m_defaults mode of
                                                None \<Rightarrow> []
                                              | Some defaults \<Rightarrow>
                                                  default_writes channelKeys startAddress defaults);
                                       fs' = fs[index := fixture\<lparr>f_activeMode := Some modeName,
                                                                  f_updatedAt := now\<rparr>]
                                   in (Inr results, fm1\<lparr>fixtures := fs'\<rparr>))))))"

text \<open>
  Scenario S5 of the specification: five channels, mode-select channel \<open>ch2\<close>, a mode with
  value 128 and the default \<open>ch4 = 50\<close>, the fixture at address 10. The second profile is
  the same without a mode-select channel.
\<close>

definition profile_S5 :: fixture_profile where
  "profile_S5 = \<lparr>fp_fixture = ''Lamp'', fp_channelCount = Fin 5, fp_modeChannel = Some ''ch2'',
     fp_channels = [(''ch1'', ''dimmer'', ''Dimmer''), (''ch2'', ''mode-select'', ''Mode''),
                    (''ch3'', ''dynamic'', ''A''), (''ch4'', ''dynamic'', ''B''),
                    (''ch5'', ''dynamic'', ''C'')],
     fp_modes = [\<lparr>m_name = ''M'', m_channelValue = Fin 128,
                  m_defaults = Some [(''ch4'', Fin 50)]\<rparr>]\<rparr>"

definition fixture_S5 :: "fixture_profile \<Rightarrow> fixture" where
  "fixture_S5 profile = \<lparr>f_id = ''f1'', f_name = ''Key light'', f_type = ''Lamp'',
     f_channels = [], f_createdAt = ''t0'', f_updatedAt = ''t0'', f_profile = Some profile,
     f_startAddress = Some (Fin 10), f_activeMode = None\<rparr>"

definition manager_S5 :: fixture_manager where
  "manager_S5 = \<lparr>fixtures = [fixture_S5 profile_S5], bundledProfiles = []\<rparr>"


text \<open>A preset created in an empty store, and a fixture without a profile.\<close>

definition sample_create :: "number list \<Rightarrow> preset \<times> preset list" where
  "sample_create chs = PresetManager_create ''warm'' chs (Fin 500) ''red'' None ''t1'' ''t2'' []"


section \<open>FadeEngine\<close>

text \<open>
  The engine holds the universe, the running interval with what its callback has captured
  (\<open>activeFade\<close>), and the resolver of the pending promise (\<open>fadeResolve\<close>). A promise is
  identified by a number: \<open>promises\<close> counts those created, \<open>resolved\<close> lists those
  resolved, oldest first. The clock is an argument: \<open>now\<close> is the value of \<open>Date.now()\<close>,
  in milliseconds, at the call or at the tick; the difference of two such values is
  exact. The interpolation and the progress are computed in doubles.
\<close>

record fade_job =
  startChannels :: "number list"
  startTime :: int
  targetChannels :: "number list"
  durationMs :: number

record fade_engine =
  fe_universe :: universe
  activeFade :: "fade_job option"
  fadeResolve :: "nat option"
  promises :: nat
  resolved :: "nat list"

definition new_fade_engine :: "universe \<Rightarrow> fade_engine" where
  "new_fade_engine u =
     \<lparr>fe_universe = u, activeFade = None, fadeResolve = None, promises = 0, resolved = []\<rparr>"

definition cancelFade :: "fade_engine \<Rightarrow> fade_engine" where
  "cancelFade fe =
     (let fe = (if activeFade fe \<noteq> None then fe\<lparr>activeFade := None\<rparr> else fe)
      in case fadeResolve fe of
           None \<Rightarrow> fe
         | Some p \<Rightarrow> fe\<lparr>resolved := resolved fe @ [p], fadeResolve := None\<rparr>)"

definition completeFade :: "fade_engine \<Rightarrow> fade_engine" where
  "completeFade fe =
     (let fe = (if activeFade fe \<noteq> None then fe\<lparr>activeFade := None\<rparr> else fe)
      in case fadeResolve fe of
           None \<Rightarrow> fe
         | Some p \<Rightarrow> fe\<lparr>resolved := resolved fe @ [p], fadeResolve := None\<rparr>)"

text \<open>\<open>fadeTo\<close> returns its promise and the engine.\<close>

definition fadeTo :: "number list \<Rightarrow> number \<Rightarrow> int \<Rightarrow> fade_engine \<Rightarrow> nat \<times> fade_engine" where
  "fadeTo target duration now fe =
     (let fe = cancelFade fe;
          p = promises fe
      in if js_le duration (Fin 0)
         then (p, fe\<lparr>fe_universe := applySnapshot target (fe_universe fe),
                     promises := Suc p, resolved := resolved fe @ [p]\<rparr>)
         else (p, fe\<lparr>fadeResolve := Some p,
                     activeFade := Some \<lparr>startChannels = getRawChannelsArray (fe_universe fe),
                                          startTime = now, targetChannels = target,
                                          durationMs = duration\<rparr>,
                     promises := Suc p\<rparr>))"

definition interpolate :: "number list \<Rightarrow> number list \<Rightarrow> number \<Rightarrow> nat \<Rightarrow> number" where
  "interpolate starts targets progress i =
     (let start = or_zero (array_read starts i);
          endv = or_zero (array_read targets i);
          val = fl_add start (fl_mul (fl_sub endv start) progress)
      in clamp_byte val)"

text \<open>The callback of the interval; it runs only while the interval is set.\<close>

definition fade_tick :: "int \<Rightarrow> fade_engine \<Rightarrow> fade_engine" where
  "fade_tick now fe =
     (case activeFade fe of
        None \<Rightarrow> fe
      | Some job \<Rightarrow>
          (let elapsed = Fin (of_int (now - startTime job));
               progress = Math_min (Fin 1) (fl_div elapsed (durationMs job));
               interpolated =
                 map (interpolate (startChannels job) (targetChannels job) progress) [0..<512];
               fe = fe\<lparr>fe_universe := applySnapshot interpolated (fe_universe fe)\<rparr>
           in if js_ge progress (Fin 1) then completeFade fe else fe))"


definition fadeToBlackout :: "number \<Rightarrow> int \<Rightarrow> fade_engine \<Rightarrow> nat \<times> fade_engine" where
  "fadeToBlackout duration now fe = fadeTo (replicate 512 (Fin 0)) duration now fe"











section \<open>CompanionServer\<close>

text \<open>
  An inbound frame is a text: \<open>JSON.parse\<close> throws on it (\<open>Malformed\<close>) or yields a value.
  On the value \<open>null\<close> (\<open>ParsedNull\<close>) the first reading of \<open>command.action\<close> throws. Every
  other value is read as a command (\<open>Parsed\<close>): its property \<open>action\<close> is \<open>undefined\<close>
  (\<open>NoAction\<close>: an object without that key such as \<open>{}\<close>, a number, a string, a boolean,
  an array), a string (\<open>StringAction\<close>), or another value (\<open>OtherAction\<close>), of which the
  model keeps the text that the template \<open>`${command.action}`\<close> makes of it, \<open>None\<close> when
  that conversion throws. The other fields are those of \<open>CompanionCommand\<close>, each absent
  or of its declared type; \<open>fadeTime\<close> is read through \<open>??\<close>, so that absent stands for
  \<open>null\<close> too.
\<close>

datatype action_value = NoAction | StringAction string | OtherAction "string option"

record command =
  c_action :: action_value
  c_id :: "string option"
  c_fixtureId :: "string option"
  c_modeName :: "string option"
  c_fadeTime :: "number option"
  c_channel :: "number option"
  c_value :: "number option"
  c_state :: "string option"

datatype frame = Malformed | ParsedNull | Parsed command

datatype status = Ok | Error

text \<open>The \<open>data\<close> of a response, one constructor per handler.\<close>

datatype response_data =
    RecallData string "number option"
  | BlackoutData number
  | SetChannelData number number
  | StateData "number list" number
  | PresetsData "(string \<times> string \<times> number option \<times> string) list"
  | MasterData number
  | ModeData string string "(number \<times> number) list"
  | TriggerData number string number

text \<open>
  A response as \<open>JSON.stringify\<close> writes it: a field whose value is \<open>undefined\<close> is left
  out, so that \<open>r_action = NoAction\<close> is a response without the field \<open>action\<close>.
\<close>

record response =
  r_status :: status
  r_action :: action_value
  r_data :: "response_data option"
  r_message :: "string option"

text \<open>
  The state seen from one client socket: the components the server holds (the universe is
  the one inside the fade engine), whether the socket is open, the responses sent on it
  and the \<open>preset_activated\<close> events broadcast, oldest first. A handler that awaits a fade
  has sent nothing yet: what it does after the \<open>await\<close>, the response to send and the
  preset to announce, if any, is kept in \<open>waiting\<close> under the promise it awaits.
\<close>

record companion =
  cs_fade :: fade_engine
  cs_presets :: "preset list"
  cs_fixtures :: fixture_manager
  ws_open :: bool
  sent :: "response list"
  activated :: "(string \<times> string) list"
  waiting :: "(nat \<times> response \<times> (string \<times> string) option) list"

definition sendResponse :: "response \<Rightarrow> companion \<Rightarrow> companion" where
  "sendResponse r s = (if ws_open s then s\<lparr>sent := sent s @ [r]\<rparr> else s)"

definition error_response :: "action_value \<Rightarrow> string \<Rightarrow> response" where
  "error_response a msg = \<lparr>r_status = Error, r_action = a, r_data = None, r_message = Some msg\<rparr>"

definition ok_response :: "string \<Rightarrow> response_data \<Rightarrow> response" where
  "ok_response a d =
     \<lparr>r_status = Ok, r_action = StringAction a, r_data = Some d, r_message = None\<rparr>"

text \<open>What follows the fade, or the snapshot, in a handler.\<close>

definition finish :: "response \<times> (string \<times> string) option \<Rightarrow> companion \<Rightarrow> companion" where
  "finish k s =
     (let s = sendResponse (fst k) s
      in case snd k of None \<Rightarrow> s | Some ev \<Rightarrow> s\<lparr>activated := activated s @ [ev]\<rparr>)"

definition on_universe :: "(universe \<Rightarrow> universe) \<Rightarrow> companion \<Rightarrow> companion" where
  "on_universe f s = s\<lparr>cs_fade := (cs_fade s)\<lparr>fe_universe := f (fe_universe (cs_fade s))\<rparr>\<rparr>"

definition await_fade ::
  "number list \<Rightarrow> number \<Rightarrow> int \<Rightarrow> response \<times> (string \<times> string) option \<Rightarrow> companion \<Rightarrow> companion"
  where
  "await_fade target duration now k s =
     (let (p, fe) = fadeTo target duration now (cs_fade s)
      in s\<lparr>cs_fade := fe, waiting := waiting s @ [(p, k)]\<rparr>)"

text \<open>
  An entry \<open>null\<close> of a stored channel array is read, in the universe and in the fade
  engine, only as \<open>x || 0\<close>, where \<open>null\<close> gives 0 as NaN does: the array is handed over
  with NaN for \<open>null\<close>. In \<open>fadeTime > 0\<close> the value \<open>null\<close> counts as 0.
\<close>

definition js_array :: "number option list \<Rightarrow> number list" where
  "js_array xs = map (\<lambda>x. case x of None \<Rightarrow> NaN | Some v \<Rightarrow> v) xs"

fun gt_zero :: "number option \<Rightarrow> bool" where
  "gt_zero None = False"
| "gt_zero (Some d) = js_gt d (Fin 0)"

definition handleRecallPreset :: "int \<Rightarrow> command \<Rightarrow> companion \<Rightarrow> companion" where
  "handleRecallPreset now c s =
     (if \<not> truthy_string (c_id c)
      then sendResponse (error_response (StringAction ''recall_preset'') ''Missing preset id'') s
      else case PresetManager_getById (the (c_id c)) (cs_presets s) of
             None \<Rightarrow>
               sendResponse (error_response (StringAction ''recall_preset'') ''Preset not found'') s
           | Some preset \<Rightarrow>
               (let fadeTime = (case c_fadeTime c of None \<Rightarrow> p_fadeTime preset | Some f \<Rightarrow> Some f);
                    k = (ok_response ''recall_preset'' (RecallData (p_id preset) fadeTime),
                         Some (p_id preset, p_name preset))
                in if gt_zero fadeTime
                   then await_fade (js_array (p_channels preset)) (the fadeTime) now k s
                   else finish k (on_universe (applySnapshot (js_array (p_channels preset))) s)))"

definition handleBlackout :: "int \<Rightarrow> command \<Rightarrow> companion \<Rightarrow> companion" where
  "handleBlackout now c s =
     (let fadeTime = (case c_fadeTime c of None \<Rightarrow> Fin 0 | Some f \<Rightarrow> f);
          k = (ok_response ''blackout'' (BlackoutData fadeTime), None)
      in if js_gt fadeTime (Fin 0)
         then await_fade (replicate 512 (Fin 0)) fadeTime now k s
         else finish k (on_universe blackout s))"

definition handleSetChannel :: "command \<Rightarrow> companion \<Rightarrow> companion" where
  "handleSetChannel c s =
     (if c_channel c = None \<or> c_value c = None
      then sendResponse (error_response (StringAction ''set_channel'') ''Missing channel or value'') s
      else sendResponse
             (ok_response ''set_channel'' (SetChannelData (the (c_channel c)) (the (c_value c))))
             (on_universe (setChannel (the (c_channel c)) (the (c_value c))) s))"

definition handleGetState :: "companion \<Rightarrow> companion" where
  "handleGetState s =
     sendResponse
       (ok_response ''get_state''
          (StateData (getRawChannelsArray (fe_universe (cs_fade s)))
             (getMasterDimmer (fe_universe (cs_fade s)))))
       s"

definition handleListPresets :: "companion \<Rightarrow> companion" where
  "handleListPresets s =
     sendResponse
       (ok_response ''list_presets''
          (PresetsData (map (\<lambda>p. (p_id p, p_name p, p_fadeTime p, p_color p))
             (PresetManager_getAll (cs_presets s)))))
       s"

definition handleMasterDimmer :: "command \<Rightarrow> companion \<Rightarrow> companion" where
  "handleMasterDimmer c s =
     (if c_value c = None
      then sendResponse (error_response (StringAction ''master_dimmer'') ''Missing value'') s
      else sendResponse (ok_response ''master_dimmer'' (MasterData (the (c_value c))))
             (on_universe (setMasterDimmer (the (c_value c))) s))"

text \<open>The message of the error that \<open>setActiveMode\<close> throws.\<close>

fun error_message :: "fm_error \<Rightarrow> string" where
  "error_message (FixtureNotFound fid) = ''Fixture not found: '' @ fid"
| "error_message (NotProfileFixture name) = ''Fixture \"'' @ name @ ''\" is not a profile fixture''"
| "error_message (ModeNotFound mode profile) =
     ''Mode \"'' @ mode @ ''\" not found in profile \"'' @ profile @ ''\"''"

definition handleSetMode :: "string \<Rightarrow> command \<Rightarrow> companion \<Rightarrow> companion" where
  "handleSetMode stamp c s =
     (if \<not> truthy_string (c_fixtureId c) \<or> \<not> truthy_string (c_modeName c)
      then sendResponse
             (error_response (StringAction ''set_mode'') ''Missing fixtureId or modeName'') s
      else case setActiveMode (the (c_fixtureId c)) (the (c_modeName c)) stamp (cs_fixtures s) of
             (Inl err, fm) \<Rightarrow>
               sendResponse
                 (error_response (StringAction ''set_mode'')
                    (if error_message err = [] then ''Failed to set mode'' else error_message err))
                 (s\<lparr>cs_fixtures := fm\<rparr>)
           | (Inr results, fm) \<Rightarrow>
               sendResponse
                 (ok_response ''set_mode''
                    (ModeData (the (c_fixtureId c)) (the (c_modeName c)) results))
                 (on_universe (\<lambda>u. foldl (\<lambda>u r. setChannel (fst r) (snd r) u) u results)
                    (s\<lparr>cs_fixtures := fm\<rparr>)))"

definition handleTrigger :: "command \<Rightarrow> companion \<Rightarrow> companion" where
  "handleTrigger c s =
     (if c_channel c = None \<or> \<not> truthy_string (c_state c)
      then sendResponse
             (error_response (StringAction ''trigger'') ''Missing channel or state (on/off)'') s
      else let v = (if c_state c = Some ''on'' then Fin 255 else Fin 0)
           in sendResponse
                (ok_response ''trigger'' (TriggerData (the (c_channel c)) (the (c_state c)) v))
                (on_universe (setChannel (the (c_channel c)) v) s))"

text \<open>The text of \<open>`${command.action}`\<close>; \<open>None\<close> when the conversion throws.\<close>

fun template_text :: "action_value \<Rightarrow> string option" where
  "template_text NoAction = Some ''undefined''"
| "template_text (StringAction a) = Some a"
| "template_text (OtherAction t) = t"

text \<open>
  \<open>handleCommand\<close>: the log line, which converts the action to text, then the \<open>switch\<close>,
  whose cases a string alone can match. The result is \<open>None\<close> when the log line throws.
  \<open>now\<close> and \<open>stamp\<close> are the clock as \<open>Date.now()\<close> and as the ISO string, for the
  handlers that read it.
\<close>

definition handleCommand :: "int \<Rightarrow> string \<Rightarrow> command \<Rightarrow> companion \<Rightarrow> companion option" where
  "handleCommand now stamp c s =
     (case template_text (c_action c) of
        None \<Rightarrow> None
      | Some txt \<Rightarrow>
          Some (if c_action c = StringAction ''recall_preset'' then handleRecallPreset now c s
                else if c_action c = StringAction ''blackout'' then handleBlackout now c s
                else if c_action c = StringAction ''set_channel'' then handleSetChannel c s
                else if c_action c = StringAction ''get_state'' then handleGetState s
                else if c_action c = StringAction ''list_presets'' then handleListPresets s
                else if c_action c = StringAction ''master_dimmer'' then handleMasterDimmer c s
                else if c_action c = StringAction ''set_mode'' then handleSetMode stamp c s
                else if c_action c = StringAction ''trigger'' then handleTrigger c s
                else sendResponse (error_response (c_action c) (''Unknown action: '' @ txt)) s))"

text \<open>
  The awaiting handlers resume once their promise is resolved, before the next event is
  handled: each remainder whose promise is resolved leaves \<open>waiting\<close> and runs, in the
  order of the calls.
\<close>

definition released ::
  "fade_engine \<Rightarrow> (nat \<times> response \<times> (string \<times> string) option) list \<Rightarrow>
   (nat \<times> response \<times> (string \<times> string) option) list" where
  "released fe ws = filter (\<lambda>w. fst w \<in> set (resolved fe)) ws"

definition parked ::
  "fade_engine \<Rightarrow> (nat \<times> response \<times> (string \<times> string) option) list \<Rightarrow>
   (nat \<times> response \<times> (string \<times> string) option) list" where
  "parked fe ws = filter (\<lambda>w. fst w \<notin> set (resolved fe)) ws"

definition settle :: "companion \<Rightarrow> companion" where
  "settle s =
     foldl (\<lambda>s w. finish (snd w) s) (s\<lparr>waiting := parked (cs_fade s) (waiting s)\<rparr>)
       (released (cs_fade s) (waiting s))"

text \<open>
  The \<open>message\<close> handler of a socket. Its \<open>catch\<close> is around \<open>JSON.parse\<close> and around the
  awaited \<open>handleCommand\<close>.
\<close>

definition invalid_json :: response where
  "invalid_json = error_response (StringAction ''unknown'') ''Invalid JSON message''"

fun on_message :: "int \<Rightarrow> string \<Rightarrow> frame \<Rightarrow> companion \<Rightarrow> companion" where
  "on_message now stamp Malformed s = settle (sendResponse invalid_json s)"
| "on_message now stamp ParsedNull s = settle (sendResponse invalid_json s)"
| "on_message now stamp (Parsed c) s =
     settle (case handleCommand now stamp c s of
               None \<Rightarrow> sendResponse invalid_json s
             | Some s' \<Rightarrow> s')"

text \<open>A tick of the fade engine's interval, as the server sees it.\<close>

definition on_tick :: "int \<Rightarrow> companion \<Rightarrow> companion" where
  "on_tick now s = settle (s\<lparr>cs_fade := fade_tick now (cs_fade s)\<rparr>)"

definition run_server_ticks :: "int list \<Rightarrow> companion \<Rightarrow> companion" where
  "run_server_ticks ticks s = foldl (\<lambda>s now. on_tick now s) s ticks"

text \<open>
  The action that the response to a frame is to carry, and the required arguments of a
  command, as the handlers test them.
\<close>

fun frame_action :: "frame \<Rightarrow> action_value" where
  "frame_action (Parsed c) =
     (if template_text (c_action c) = None then StringAction ''unknown'' else c_action c)"
| "frame_action _ = StringAction ''unknown''"

definition has_message :: "response \<Rightarrow> bool" where
  "has_message r = (case r_message r of None \<Rightarrow> False | Some m \<Rightarrow> m \<noteq> [])"

definition missing_arguments :: "command \<Rightarrow> bool" where
  "missing_arguments c =
     (if c_action c = StringAction ''recall_preset'' then \<not> truthy_string (c_id c)
      else if c_action c = StringAction ''set_channel'' then c_channel c = None \<or> c_value c = None
      else if c_action c = StringAction ''master_dimmer'' then c_value c = None
      else if c_action c = StringAction ''set_mode''
        then \<not> truthy_string (c_fixtureId c) \<or> \<not> truthy_string (c_modeName c)
      else if c_action c = StringAction ''trigger''
        then c_channel c = None \<or> \<not> truthy_string (c_state c)
      else False)"

fun frame_missing :: "frame \<Rightarrow> bool" where
  "frame_missing (Parsed c) = missing_arguments c"
| "frame_missing _ = False"

text \<open>
  The fade a frame makes its handler await in the state \<open>s\<close>, as its duration: that of
  \<open>recall_preset\<close> for a stored preset and of \<open>blackout\<close>, when the fade time is above 0.
\<close>

fun awaited_fade :: "frame \<Rightarrow> companion \<Rightarrow> number option" where
  "awaited_fade (Parsed c) s =
     (if c_action c = StringAction ''recall_preset'' \<and> truthy_string (c_id c)
      then (case PresetManager_getById (the (c_id c)) (cs_presets s) of
              None \<Rightarrow> None
            | Some preset \<Rightarrow>
                (let fadeTime = (case c_fadeTime c of None \<Rightarrow> p_fadeTime preset | Some f \<Rightarrow> Some f)
                 in if gt_zero fadeTime then fadeTime else None))
      else if c_action c = StringAction ''blackout''
      then (let fadeTime = (case c_fadeTime c of None \<Rightarrow> Fin 0 | Some f \<Rightarrow> f)
            in if js_gt fadeTime (Fin 0) then Some fadeTime else None)
      else None)"
| "awaited_fade _ s = None"

text \<open>
  The states of a running server: the socket is open, the promises in use are among those
  created, and a handler waits only on a promise that is not resolved.
\<close>

definition companion_ok :: "companion \<Rightarrow> bool" where
  "companion_ok s =
     (ws_open s
      \<and> list_all (\<lambda>q. q < promises (cs_fade s)) (resolved (cs_fade s))
      \<and> (case fadeResolve (cs_fade s) of None \<Rightarrow> True | Some q \<Rightarrow> q < promises (cs_fade s))
      \<and> list_all (\<lambda>w. fst w < promises (cs_fade s) \<and> fst w \<notin> set (resolved (cs_fade s)))
           (waiting s))"

text \<open>A server with one stored preset, and some commands.\<close>

definition sample_server :: companion where
  "sample_server =
     \<lparr>cs_fade = new_fade_engine new_universe,
      cs_presets = snd (sample_create [Fin 10, Fin 20]),
      cs_fixtures = manager_S5, ws_open = True, sent = [], activated = [], waiting = []\<rparr>"

definition bare_command :: "action_value \<Rightarrow> command" where
  "bare_command a = \<lparr>c_action = a, c_id = None, c_fixtureId = None, c_modeName = None,
     c_fadeTime = None, c_channel = None, c_value = None, c_state = None\<rparr>"

definition recall_command :: command where
  "recall_command = (bare_command (StringAction ''recall_preset''))\<lparr>c_id := Some ''0''\<rparr>"

text \<open>The frame \<open>{"action":"blackout","fadeTime":1e999}\<close>: the number parses to Infinity.\<close>

definition blackout_forever :: frame where
  "blackout_forever = Parsed ((bare_command (StringAction ''blackout''))\<lparr>c_fadeTime := Some PosInf\<rparr>)"

section \<open>Verification: the universe\<close>

lemma length_typed_store_at [simp]: "length (typed_store_at xs i v) = length xs"
  by (simp add: typed_store_at_def)

lemma length_typed_store [simp]: "length (typed_store xs k v) = length xs"
  by (cases k) simp_all

lemma length_setChannels_loop [simp]: "length (setChannels_loop vals chs) = length chs"
  by (induction vals chs rule: setChannels_loop.induct) simp_all

lemma length_applySnapshot_loop [simp]: "length (applySnapshot_loop snap is chs) = length chs"
  by (induction snap "is" chs rule: applySnapshot_loop.induct) simp_all

lemma length_getState [simp]: "length (getState u) = 512"
  by (simp add: getState_def)

lemma getState_nth:
  "i < 512 \<Longrightarrow> getState u ! i =
     toUint8 (Math_round (js_mul (typed_read (channels u) i) (js_div (masterDimmer u) (Fin 255))))"
  by (simp add: getState_def Let_def del: upt_Suc)

lemma getState_cong:
  "channels u = channels u' \<Longrightarrow> masterDimmer u = masterDimmer u' \<Longrightarrow> getState u = getState u'"
  by (simp add: getState_def)

lemma notifyListeners_fields [simp]:
  "channels (notifyListeners u) = channels u"
  "masterDimmer (notifyListeners u) = masterDimmer u"
  "listeners (notifyListeners u) = listeners u"
  "warnings (notifyListeners u) = warnings u"
  "notified (notifyListeners u) = notified u @ [getState u]"
  "calls (notifyListeners u) = calls u @ map (\<lambda>l. (l, getState u)) (listeners u)"
  by (simp_all add: notifyListeners_def Let_def)

lemma getState_notifyListeners [simp]: "getState (notifyListeners u) = getState u"
  by (rule getState_cong) simp_all

lemma scaled_bounds:
  fixes c m :: int
  assumes "0 \<le> c" "c \<le> 255" "0 \<le> m" "m \<le> 255"
  shows "0 \<le> \<lfloor>(of_int c * (of_int m / 255) :: rat) + 1 / 2\<rfloor>"
    and "\<lfloor>(of_int c * (of_int m / 255) :: rat) + 1 / 2\<rfloor> \<le> 255"
proof -
  have "(0::rat) \<le> of_int c * (of_int m / 255)" using assms by simp
  then show "0 \<le> \<lfloor>(of_int c * (of_int m / 255) :: rat) + 1 / 2\<rfloor>" by simp
  have "of_int c * (of_int m / 255) \<le> (of_int c :: rat) * 1"
    using assms by (intro mult_left_mono) simp_all
  also have "\<dots> \<le> 255" using assms by simp
  finally have "(of_int c * (of_int m / 255) :: rat) + 1 / 2 < 256" by simp
  then have "\<lfloor>(of_int c * (of_int m / 255) :: rat) + 1 / 2\<rfloor> < 256"
    by (simp add: floor_less_iff)
  then show "\<lfloor>(of_int c * (of_int m / 255) :: rat) + 1 / 2\<rfloor> \<le> 255" by simp
qed

lemma toUint8_of_int: "0 \<le> k \<Longrightarrow> k \<le> 255 \<Longrightarrow> unat (toUint8 (Fin (of_int k))) = nat k"
  by (simp add: truncate_rat_def unat_eq_nat_uint uint_word_of_int take_bit_int_eq_self)

lemma uint_byte_le: "uint (b :: byte) \<le> 255"
  using uint_bounded [of b] by simp

lemma setMasterDimmer_fields [simp]:
  "channels (setMasterDimmer v u) = channels u"
  "masterDimmer (setMasterDimmer v u) = clamp_byte v"
  "listeners (setMasterDimmer v u) = listeners u"
  "warnings (setMasterDimmer v u) = warnings u"
  by (simp_all add: setMasterDimmer_def)

lemma setChannel_in_range:
  assumes "\<not> js_lt channel (Fin 1)" "\<not> js_gt channel (Fin 512)"
  shows "channels (setChannel channel v u) =
           typed_store (channels u) (js_sub channel (Fin 1)) (clamp_byte v)"
    and "masterDimmer (setChannel channel v u) = masterDimmer u"
    and "listeners (setChannel channel v u) = listeners u"
    and "warnings (setChannel channel v u) = warnings u"
  using assms by (simp_all add: setChannel_def Let_def)

lemma scenario_S2_fields:
  "length (channels scenario_S2) = 512" "masterDimmer scenario_S2 = Fin 128"
  "channels scenario_S2 ! 0 = 200"
proof -
  have r: "\<not> js_lt (Fin 1) (Fin 1)" "\<not> js_gt (Fin 1) (Fin 512)" by (simp_all add: js_gt_def)
  have c: "clamp_byte (Fin 128) = Fin 128" "toUint8 (clamp_byte (Fin 200)) = 200"
    "js_sub (Fin 1) (Fin 1) = Fin 0" by code_simp+
  show "length (channels scenario_S2) = 512"
    by (simp add: scenario_S2_def setChannel_in_range [OF r] new_universe_def)
  show "masterDimmer scenario_S2 = Fin 128"
    by (simp add: scenario_S2_def c)
  show "channels scenario_S2 ! 0 = 200"
    by (simp add: scenario_S2_def setChannel_in_range [OF r] new_universe_def c typed_store_at_def)
qed

text \<open>
  The exact value \<open>c * m / 255\<close> is at least \<open>1/510\<close> away from every half-integer, so the
  rounding error of the double product \<open>c * (m / 255)\<close>, which is below \<open>2^-40\<close> for bytes,
  cannot change what \<open>Math.round\<close> returns: exact arithmetic gives the byte the code stores.
\<close>

lemma effective_rounding_margin:
  fixes c m k :: int
  shows "1 / 510 \<le> \<bar>(of_int c * of_int m / 255 :: rat) - (of_int k + 1 / 2)\<bar>"
proof -
  let ?z = "2 * c * m - 510 * k - 255"
  let ?x = "(of_int c * of_int m / 255 :: rat) - (of_int k + 1 / 2)"
  have "odd ?z" by simp
  then have "?z \<noteq> 0" by presburger
  then have "1 \<le> \<bar>?z\<bar>" by simp
  then have z: "(1 :: rat) \<le> \<bar>of_int ?z\<bar>" by (metis of_int_1_le_iff of_int_abs)
  have x: "?x = of_int ?z / 510" by (simp add: field_simps)
  have "\<bar>?x\<bar> = \<bar>of_int ?z :: rat\<bar> / 510" unfolding x by (simp add: abs_divide)
  also have "\<dots> \<ge> 1 / 510" using z by (intro divide_right_mono) simp_all
  finally show ?thesis .
qed

text \<open>
  Claim C1. In a universe whose channel array has its 512 bytes and whose master dimmer is
  an integer from 0 to 255, byte \<open>i\<close> of the effective view is
  \<open>round (raw[i] * master / 255)\<close> for every index \<open>i\<close> below 512. \<open>getState\<close> yields
  only the view; \<open>notifyListeners\<close>, which reads the view and hands it to the listeners,
  leaves the raw channels as they were.
\<close>

theorem getState_effective:
  assumes len: "length (channels u) = 512"
    and master: "masterDimmer u = Fin (of_int m)" "0 \<le> m" "m \<le> 255"
    and i: "i < 512"
  shows "int (unat (getState u ! i)) =
           round (of_nat (unat (channels u ! i)) * of_int m / (255 :: rat))
         \<and> getRawState (notifyListeners u) = getRawState u"
proof -
  let ?c = "uint (channels u ! i)"
  let ?k = "\<lfloor>(of_int ?c * (of_int m / 255) :: rat) + 1 / 2\<rfloor>"
  have c: "0 \<le> ?c" "?c \<le> 255" by (simp_all add: uint_byte_le)
  have k: "0 \<le> ?k" "?k \<le> 255" using scaled_bounds [OF c master(2,3)] .
  have "getState u ! i = toUint8 (Fin (of_int ?k))"
    using i len by (simp add: getState_nth typed_read_def master(1))
  then have "int (unat (getState u ! i)) = ?k"
    using toUint8_of_int [OF k] k by simp
  also have "\<dots> = round (of_nat (unat (channels u ! i)) * of_int m / (255 :: rat))"
    by (simp add: round_def)
  finally have "int (unat (getState u ! i)) =
           round (of_nat (unat (channels u ! i)) * of_int m / (255 :: rat))" .
  moreover have "getRawState (notifyListeners u) = getRawState u"
    by (simp add: getRawState_def)
  ultimately show ?thesis by simp
qed

theorem getState_effective_witness:
  "length (channels scenario_S2) = 512 \<and> masterDimmer scenario_S2 = Fin (of_int 128)
   \<and> (0::int) \<le> 128 \<and> (128::int) \<le> 255 \<and> (0::nat) < 512
   \<and> int (unat (getState scenario_S2 ! 0)) = 100
   \<and> getRawState (notifyListeners scenario_S2) = getRawState scenario_S2"
proof -
  have r: "round (5120 / 51 :: rat) = 100" by code_simp
  show ?thesis
    using getState_effective [of scenario_S2 128 0]
    by (simp add: scenario_S2_fields r)
qed

lemma js_ge_not_lt: "js_ge c (Fin a) \<Longrightarrow> \<not> js_lt c (Fin a)"
  by (cases c) (simp_all add: js_ge_def)

lemma js_le_not_gt: "js_le c (Fin a) \<Longrightarrow> \<not> js_gt c (Fin a)"
  by (cases c) (simp_all add: js_gt_def)

lemma setChannels_fields [simp]:
  "channels (setChannels vals u) = setChannels_loop vals (channels u)"
  "masterDimmer (setChannels vals u) = masterDimmer u"
  "listeners (setChannels vals u) = listeners u"
  "warnings (setChannels vals u) = warnings u"
  by (simp_all add: setChannels_def)

lemma applySnapshot_fields [simp]:
  "channels (applySnapshot snap u) = applySnapshot_loop snap [0..<512] (channels u)"
  "masterDimmer (applySnapshot snap u) = masterDimmer u"
  "listeners (applySnapshot snap u) = listeners u"
  "warnings (applySnapshot snap u) = warnings u"
  by (simp_all add: applySnapshot_def)

lemma blackout_fields [simp]:
  "channels (blackout u) = map (\<lambda>_. 0) (channels u)"
  "masterDimmer (blackout u) = masterDimmer u"
  "listeners (blackout u) = listeners u"
  "warnings (blackout u) = warnings u"
  by (simp_all add: blackout_def)

lemma setChannels_notified:
  "notified (setChannels vals u) = notified u @ [getState (setChannels vals u)]"
  "calls (setChannels vals u) =
     calls u @ map (\<lambda>l. (l, getState (setChannels vals u))) (listeners u)"
  by (simp_all add: setChannels_def)

lemma applySnapshot_notified:
  "notified (applySnapshot snap u) = notified u @ [getState (applySnapshot snap u)]"
  "calls (applySnapshot snap u) =
     calls u @ map (\<lambda>l. (l, getState (applySnapshot snap u))) (listeners u)"
  by (simp_all add: applySnapshot_def)

lemma setChannel_notified:
  assumes "\<not> js_lt channel (Fin 1)" "\<not> js_gt channel (Fin 512)"
  shows "notified (setChannel channel v u) = notified u @ [getState (setChannel channel v u)]"
    and "calls (setChannel channel v u) =
           calls u @ map (\<lambda>l. (l, getState (setChannel channel v u))) (listeners u)"
  using assms by (simp_all add: setChannel_def Let_def)

lemma setChannel_rejected:
  assumes "js_lt channel (Fin 1) \<or> js_gt channel (Fin 512)"
  shows "setChannel channel v u = u\<lparr>warnings := warnings u @ [channel]\<rparr>"
  using assms by (simp add: setChannel_def)

text \<open>
  Claim C3. One call of \<open>setChannels\<close> runs \<open>notifyListeners\<close> once and invokes every
  listener once, and the snapshot handed out is the effective view of the state in which
  the whole batch is applied. One call of \<open>setChannel\<close> with a channel from 1 to 512 and
  one call of \<open>applySnapshot\<close> notify once as well.
\<close>

theorem one_notification_per_call:
  "notified (setChannels vals u) = notified u @ [getState (setChannels vals u)]
   \<and> calls (setChannels vals u) =
       calls u @ map (\<lambda>l. (l, getState (setChannels vals u))) (listeners u)
   \<and> channels (setChannels vals u) = setChannels_loop vals (channels u)
   \<and> (js_ge channel (Fin 1) \<and> js_le channel (Fin 512) \<longrightarrow>
        notified (setChannel channel v u) = notified u @ [getState (setChannel channel v u)]
        \<and> calls (setChannel channel v u) =
            calls u @ map (\<lambda>l. (l, getState (setChannel channel v u))) (listeners u))
   \<and> notified (applySnapshot snap u) = notified u @ [getState (applySnapshot snap u)]
   \<and> calls (applySnapshot snap u) =
       calls u @ map (\<lambda>l. (l, getState (applySnapshot snap u))) (listeners u)"
  using setChannel_notified [OF js_ge_not_lt js_le_not_gt, of channel v u]
  by (simp add: setChannels_notified applySnapshot_notified)

lemma setChannels_loop_filter:
  "setChannels_loop (filter in_channel_range vals) chs = setChannels_loop vals chs"
  by (induction vals arbitrary: chs) (auto simp add: in_channel_range_def)

lemma setChannels_loop_skipped:
  "\<forall>e \<in> set vals. \<not> in_channel_range e \<Longrightarrow> setChannels_loop vals chs = chs"
  by (induction vals arbitrary: chs) (auto simp add: in_channel_range_def)

text \<open>
  Claim C10. \<open>setChannels\<close> never warns; the entries whose channel is not within 1 to 512
  are skipped (the result is that of the batch without them); one notification is emitted
  also for the empty batch and for a batch whose entries are all skipped, in which case no
  channel has changed. \<open>setChannel\<close> with a channel below 1 or above 512 warns and does
  not notify.
\<close>

theorem setChannels_skips_silently:
  "warnings (setChannels vals u) = warnings u
   \<and> channels (setChannels vals u) = channels (setChannels (filter in_channel_range vals) u)
   \<and> notified (setChannels vals u) = notified u @ [getState (setChannels vals u)]
   \<and> channels (setChannels [] u) = channels u
   \<and> notified (setChannels [] u) = notified u @ [getState u]
   \<and> ((\<forall>e \<in> set vals. \<not> in_channel_range e) \<longrightarrow>
        channels (setChannels vals u) = channels u
        \<and> notified (setChannels vals u) = notified u @ [getState u])
   \<and> (js_lt channel (Fin 1) \<or> js_gt channel (Fin 512) \<longrightarrow>
        warnings (setChannel channel v u) = warnings u @ [channel]
        \<and> notified (setChannel channel v u) = notified u
        \<and> channels (setChannel channel v u) = channels u)"
proof -
  have skipped: "(\<forall>e \<in> set vals. \<not> in_channel_range e) \<longrightarrow>
        channels (setChannels vals u) = channels u
        \<and> notified (setChannels vals u) = notified u @ [getState u]"
  proof
    assume a: "\<forall>e \<in> set vals. \<not> in_channel_range e"
    have c: "channels (setChannels vals u) = channels u"
      by (simp add: setChannels_loop_skipped [OF a])
    have "getState (setChannels vals u) = getState u"
      by (rule getState_cong) (simp_all add: setChannels_loop_skipped [OF a])
    then show "channels (setChannels vals u) = channels u
        \<and> notified (setChannels vals u) = notified u @ [getState u]"
      using c by (simp add: setChannels_notified)
  qed
  have empty: "notified (setChannels [] u) = notified u @ [getState u]"
    by (simp add: setChannels_def)
  show ?thesis
    using skipped empty
    by (simp add: setChannels_loop_filter setChannels_notified setChannel_rejected)
qed

lemma clamp_of_int:
  "Math_max (Fin 0) (Math_min (Fin 255) (Fin (of_int k))) = Fin (of_int (max 0 (min 255 k)))"
  by (simp add: max_def min_def)

lemma clamp_byte_Fin: "clamp_byte (Fin r) = Fin (of_int (max 0 (min 255 \<lfloor>r + 1 / 2\<rfloor>)))"
  unfolding clamp_byte_def Math_round.simps by (rule clamp_of_int)

lemma clamp_byte_special [simp]:
  "clamp_byte NaN = NaN" "clamp_byte PosInf = Fin 255" "clamp_byte NegInf = Fin 0"
  by (simp_all add: clamp_byte_def)

lemma clamp_byte_cases:
  "clamp_byte v = NaN \<and> v = NaN \<or> (\<exists>k. clamp_byte v = Fin (of_int k) \<and> 0 \<le> k \<and> k \<le> 255)"
proof (cases v)
  case (Fin r)
  have "0 \<le> max 0 (min 255 \<lfloor>r + 1 / 2\<rfloor>)" "max 0 (min 255 \<lfloor>r + 1 / 2\<rfloor>) \<le> 255" by simp_all
  then show ?thesis unfolding Fin clamp_byte_Fin by blast
next
  case PosInf
  have "clamp_byte PosInf = Fin (of_int 255)" by simp
  then show ?thesis unfolding PosInf by (intro disjI2 exI [of _ 255]) simp
next
  case NegInf
  have "clamp_byte NegInf = Fin (of_int 0)" by simp
  then show ?thesis unfolding NegInf by (intro disjI2 exI [of _ 0]) simp
qed simp

lemma clamp_byte_in_range: "v \<noteq> NaN \<Longrightarrow> in_byte_range (clamp_byte v)"
  using clamp_byte_cases [of v] by (auto simp add: in_byte_range_def)

lemma listening_universe_fields:
  "notified listening_universe = []" "calls listening_universe = []"
  "listeners listening_universe = [7]" "warnings listening_universe = []"
  by (simp_all add: listening_universe_def onChange_def new_universe_def)

theorem one_notification_per_call_witness:
  "js_ge (Fin 10) (Fin 1) \<and> js_le (Fin 10) (Fin 512)
   \<and> length (notified (setChannels sample_batch listening_universe)) = 1
   \<and> map fst (calls (setChannels sample_batch listening_universe)) = [7]
   \<and> channels (setChannels sample_batch listening_universe) =
       setChannels_loop sample_batch (channels listening_universe)
   \<and> length (notified (setChannel (Fin 10) (Fin 200) listening_universe)) = 1
   \<and> map fst (calls (setChannel (Fin 10) (Fin 200) listening_universe)) = [7]
   \<and> length (notified (applySnapshot [] listening_universe)) = 1
   \<and> map fst (calls (applySnapshot [] listening_universe)) = [7]"
  using one_notification_per_call [where vals = sample_batch and u = listening_universe
      and channel = "Fin 10" and v = "Fin 200" and snap = "[]"]
  by (simp add: listening_universe_fields js_ge_def)

theorem setChannels_skips_silently_witness:
  "(js_lt (Fin 0) (Fin 1) \<or> js_gt (Fin 0) (Fin 512))
   \<and> \<not> in_channel_range (Fin 0, Fin 5) \<and> \<not> in_channel_range (Fin 513, Fin 9)
   \<and> \<not> in_channel_range (NaN, Fin 1)
   \<and> warnings (setChannels skipped_batch listening_universe) = []
   \<and> channels (setChannels skipped_batch listening_universe) = channels listening_universe
   \<and> notified (setChannels skipped_batch listening_universe) = [getState listening_universe]
   \<and> warnings (setChannel (Fin 0) (Fin 5) listening_universe) = [Fin 0]
   \<and> notified (setChannel (Fin 0) (Fin 5) listening_universe) = []
   \<and> channels (setChannel (Fin 0) (Fin 5) listening_universe) = channels listening_universe"
proof -
  have g: "getState (setChannels skipped_batch listening_universe) = getState listening_universe"
    by (rule getState_cong) (simp_all add: skipped_batch_def js_ge_def)
  show ?thesis
    using setChannels_skips_silently [where vals = skipped_batch and u = listening_universe
        and channel = "Fin 0" and v = "Fin 5"]
    by (simp add: listening_universe_fields g [unfolded skipped_batch_def] skipped_batch_def
        in_channel_range_def js_ge_def)
qed

lemma setChannel_masterDimmer [simp]: "masterDimmer (setChannel c v u) = masterDimmer u"
  by (simp add: setChannel_def Let_def)

lemma apply_op_master:
  "op \<noteq> SetMasterDimmer NaN \<Longrightarrow> in_byte_range (masterDimmer u) \<Longrightarrow>
   in_byte_range (masterDimmer (apply_op u op))"
  by (cases op) (auto simp add: clamp_byte_in_range)

lemma run_ops_master:
  "SetMasterDimmer NaN \<notin> set ops \<Longrightarrow> in_byte_range (masterDimmer u) \<Longrightarrow>
   in_byte_range (masterDimmer (run_ops ops u))"
  unfolding run_ops_def
  by (induction ops arbitrary: u) (auto simp add: apply_op_master)

lemma run_ops_bytes:
  "b \<in> set (getRawState (run_ops ops u)) \<union> set (getState (run_ops ops u)) \<Longrightarrow> unat b \<le> 255"
  using unsigned_less [of b, where 'a = nat] by simp

lemma apply_op_length: "length (channels (apply_op u op)) = length (channels u)"
  by (cases op) (simp_all add: setChannel_def Let_def)

text \<open>
  Claim C2. The bytes of both views are bytes by the type of the arrays, and the master
  dimmer stays within 0 to 255 as long as no call of \<open>setMasterDimmer\<close> has the
  argument NaN (\<open>run_ops_master\<close>). The clamp \<open>Math.max(0, Math.min(255, Math.round(v)))\<close>
  lets NaN through: after \<open>setMasterDimmer(NaN)\<close> the master dimmer is NaN, which is not
  within 0 to 255.
\<close>

theorem setMasterDimmer_NaN:
  "masterDimmer (run_ops [SetMasterDimmer NaN] new_universe) = NaN
   \<and> \<not> in_byte_range (masterDimmer (run_ops [SetMasterDimmer NaN] new_universe))"
  by (simp add: run_ops_def in_byte_range_def)

section \<open>Verification: the Enttec frame\<close>

lemma length_buf_set [simp]: "length (buf_set buf i b) = length buf"
  by (simp add: buf_set_def)

lemma copy_channels_append:
  "copy_channels chs (is @ js) packet = copy_channels chs js (copy_channels chs is packet)"
  by (induction "is" arbitrary: packet) simp_all

lemma length_copy_channels [simp]: "length (copy_channels chs is packet) = length packet"
  by (induction "is" arbitrary: packet) simp_all

lemma copy_channels_nth:
  "5 + n \<le> length packet \<Longrightarrow> j < length packet \<Longrightarrow>
   copy_channels chs [0..<n] packet ! j =
     (if 5 \<le> j \<and> j < 5 + n then chs ! (j - 5) else packet ! j)"
proof (induction n)
  case 0
  then show ?case by auto
next
  case (Suc n)
  then show ?case
    by (auto simp add: copy_channels_append buf_set_def nth_list_update)
qed

lemma header_bytes:
  "buf_set (buf_set (buf_set (buf_set (buf_set (replicate (n + 1 + 5) 0) 0 a) 1 b) 2 c) 3 d) 4 e
     = [a, b, c, d, e] @ replicate (Suc n) (0::byte)"
  by (simp add: buf_set_def eval_nat_numeral)

lemma length_buildDMXPacket: "length (buildDMXPacket chs) = length chs + 6"
  by (simp add: buildDMXPacket_def Let_def)

lemma buildDMXPacket_nth:
  assumes "j < length chs + 6"
  shows "buildDMXPacket chs ! j =
     (if j < 5 then [DMX_PRO_START_MSG, DMX_PRO_SEND_LABEL, of_nat ((length chs + 1) AND 0xff),
                     of_nat (drop_bit 8 (length chs + 1) AND 0xff), 0x00] ! j
      else if j < 5 + length chs then chs ! (j - 5) else DMX_PRO_END_MSG)"
proof -
  let ?h = "[DMX_PRO_START_MSG, DMX_PRO_SEND_LABEL, of_nat ((length chs + 1) AND 0xff),
      of_nat (drop_bit 8 (length chs + 1) AND 0xff), 0x00 :: byte]"
  let ?p = "?h @ replicate (Suc (length chs)) 0"
  let ?q = "copy_channels chs [0..<length chs] ?p"
  have b: "buildDMXPacket chs = buf_set ?q (length ?q - 1) DMX_PRO_END_MSG"
    unfolding buildDMXPacket_def Let_def header_bytes ..
  have q: "?q ! j = (if 5 \<le> j \<and> j < 5 + length chs then chs ! (j - 5) else ?p ! j)"
    using assms by (intro copy_channels_nth) simp_all
  have h: "j < 5 \<Longrightarrow> ?p ! j = ?h ! j"
    by (simp only: nth_append) simp
  show ?thesis
    unfolding b using assms q h
    by (auto simp add: buf_set_def nth_list_update)
qed

text \<open>
  Claim C4. For a channel array of 512 bytes the frame has 518 bytes, starts with
  \<open>7E 06 01 02 00\<close>, ends with \<open>E7\<close>, and carries the 512 input bytes in order at the
  offsets 5 to 516.
\<close>

theorem buildDMXPacket_512:
  assumes "length chs = 512"
  shows "length (buildDMXPacket chs) = 518
       \<and> take 5 (buildDMXPacket chs) = [0x7E, 0x06, 0x01, 0x02, 0x00]
       \<and> buildDMXPacket chs ! 517 = 0xE7
       \<and> (\<forall>i < 512. buildDMXPacket chs ! (5 + i) = chs ! i)"
proof -
  have l: "(513::nat) AND 255 = 1" "drop_bit 8 (513::nat) AND 255 = 2" by code_simp+
  have len: "length (buildDMXPacket chs) = 518"
    using assms by (simp add: length_buildDMXPacket)
  have hd: "take 5 (buildDMXPacket chs) = [0x7E, 0x06, 0x01, 0x02, 0x00]"
  proof (rule nth_equalityI)
    show "length (take 5 (buildDMXPacket chs)) = length [0x7E, 0x06, 0x01, 0x02, 0x00 :: byte]"
      using len by simp
  next
    fix j assume "j < length (take 5 (buildDMXPacket chs))"
    then have j: "j < 5" by simp
    then have "buildDMXPacket chs ! j = [0x7E, 0x06, 0x01, 0x02, 0x00] ! j"
      using assms
      by (simp add: buildDMXPacket_nth l DMX_PRO_START_MSG_def DMX_PRO_SEND_LABEL_def)
    then show "take 5 (buildDMXPacket chs) ! j = [0x7E, 0x06, 0x01, 0x02, 0x00] ! j"
      using j by simp
  qed
  have last: "buildDMXPacket chs ! 517 = 0xE7"
    using assms by (simp add: buildDMXPacket_nth DMX_PRO_END_MSG_def)
  have body: "\<forall>i < 512. buildDMXPacket chs ! (5 + i) = chs ! i"
    using assms by (simp add: buildDMXPacket_nth)
  show ?thesis using len hd last body by blast
qed

theorem buildDMXPacket_512_witness:
  "length (replicate 512 (7 :: byte)) = 512
   \<and> length (buildDMXPacket (replicate 512 7)) = 518
   \<and> take 5 (buildDMXPacket (replicate 512 7)) = [0x7E, 0x06, 0x01, 0x02, 0x00]
   \<and> buildDMXPacket (replicate 512 7) ! 517 = 0xE7
   \<and> buildDMXPacket (replicate 512 7) ! (5 + 9) = 7"
proof -
  have h: "length (replicate 512 (7 :: byte)) = 512" by simp
  note t = buildDMXPacket_512 [OF h]
  from t have "\<forall>i < 512. buildDMXPacket (replicate 512 7) ! (5 + i) = replicate 512 (7 :: byte) ! i"
    by blast
  then have "buildDMXPacket (replicate 512 7) ! (5 + 9) = replicate 512 (7 :: byte) ! 9"
    by (rule allE [of _ 9]) simp
  then show ?thesis using t h by simp
qed

section \<open>Verification: reconnection\<close>

lemma min_double:
  fixes a :: nat
  shows "min (min (a * 2) m * 2 ^ k) m = min (a * 2 ^ Suc k) m"
proof (cases "a * 2 \<le> m")
  case True
  then show ?thesis by (simp add: min_def mult.assoc)
next
  case False
  then have m: "m < a * 2" by simp
  have p: "(1::nat) \<le> 2 ^ k" by simp
  have 1: "m \<le> m * 2 ^ k" using mult_le_mono2 [OF p, of m] by simp
  have "a * 2 \<le> a * 2 * 2 ^ k" using mult_le_mono2 [OF p, of "a * 2"] by simp
  moreover have "a * 2 * 2 ^ k = a * 2 ^ Suc k" by simp
  ultimately have 2: "m \<le> a * 2 ^ Suc k" using m by linarith
  have "min (a * 2) m = m" using m by simp
  then show ?thesis using 1 2 by (simp only: min_absorb2)
qed

lemma startReconnection_fields:
  "\<not> isShuttingDown d \<Longrightarrow> scheduled (startReconnection d) = scheduled d @ [reconnectDelay d]"
  "reconnectDelay (startReconnection d) = reconnectDelay d"
  "isShuttingDown (startReconnection d) = isShuttingDown d"
  by (simp_all add: startReconnection_def)

lemma run_attempts_Cons: "run_attempts (a # as) d = run_attempts as (reconnect_timeout a d)"
  by (simp add: run_attempts_def)

lemma reconnect_timeout_NoDevice:
  assumes "\<not> isShuttingDown d"
  shows "\<not> isShuttingDown (reconnect_timeout NoDevice d)"
    and "scheduled (reconnect_timeout NoDevice d) =
           scheduled d @ [min (reconnectDelay d * 2) maxReconnectDelay]"
    and "reconnectDelay (reconnect_timeout NoDevice d) = min (reconnectDelay d * 2) maxReconnectDelay"
  using assms by (simp_all add: startReconnection_def)

lemma upt_shift: "map f [0..<Suc n] = f 0 # map (\<lambda>k. f (Suc k)) [0..<n]"
  by (simp only: upt_conv_Cons [OF zero_less_Suc] list.map map_Suc_upt [symmetric] map_map o_def)

lemma no_device_backoff:
  "\<not> isShuttingDown d \<Longrightarrow>
   scheduled (run_attempts (replicate n NoDevice) d) =
     scheduled d @ map (\<lambda>k. min (reconnectDelay d * 2 ^ Suc k) maxReconnectDelay) [0..<n]"
proof (induction n arbitrary: d)
  case 0
  then show ?case by (simp add: run_attempts_def)
next
  case (Suc n)
  let ?d = "reconnect_timeout NoDevice d"
  note d = reconnect_timeout_NoDevice [OF Suc.prems]
  have "scheduled (run_attempts (replicate (Suc n) NoDevice) d) =
        scheduled (run_attempts (replicate n NoDevice) ?d)"
    by (simp only: replicate_Suc run_attempts_Cons)
  also have "\<dots> = scheduled ?d @
        map (\<lambda>k. min (reconnectDelay ?d * 2 ^ Suc k) maxReconnectDelay) [0..<n]"
    by (rule Suc.IH [OF d(1)])
  also have "\<dots> = scheduled d @ min (reconnectDelay d * 2) maxReconnectDelay #
        map (\<lambda>k. min (reconnectDelay d * 2 ^ Suc (Suc k)) maxReconnectDelay) [0..<n]"
    unfolding d(2,3) min_double by simp
  also have "\<dots> = scheduled d @
        map (\<lambda>k. min (reconnectDelay d * 2 ^ Suc k) maxReconnectDelay) [0..<Suc n]"
    by (subst upt_shift [of _ n]) simp
  finally show ?case .
qed

text \<open>
  Claim C7. The delay doubles, up to 30000, when \<open>detectDevice\<close> finds no port
  (\<open>no_device_backoff\<close>, \<open>no_device_delays\<close>), and a port that opens sets it back to 1000
  (\<open>opened_resets_delay\<close>). An attempt that finds the port and fails to open it schedules
  the next one with the delay unchanged: after a disconnect and two such attempts the
  delays are 1000, 1000, 1000.
\<close>

theorem open_failure_keeps_delay:
  "scheduled (run_attempts [Detected ''usbserial'' OpenFailed, Detected ''usbserial'' OpenFailed]
      (port_closed (connect ''usbserial'' Opened new_driver))) = [1000, 1000, 1000]"
  by (simp add: run_attempts_def port_closed_def startReconnection_def new_driver_def)

lemma no_device_delays:
  "scheduled (run_attempts [NoDevice, NoDevice, NoDevice, NoDevice, NoDevice, NoDevice]
      (port_closed (connect ''usbserial'' Opened new_driver)))
    = [1000, 2000, 4000, 8000, 16000, 30000, 30000]"
  by (simp add: run_attempts_def port_closed_def startReconnection_def new_driver_def
      maxReconnectDelay_def)

lemma opened_resets_delay: "reconnectDelay (connect path Opened d) = 1000"
  by simp

section \<open>Verification: presets\<close>

declare pad_channels.simps [simp del]





lemma json_preset_fields [simp]:
  "p_id (json_preset p) = p_id p"
  "p_channels (json_preset p) = map json_number (p_channels p)"
  by (simp_all add: json_preset_def)







section \<open>Verification: mode activation\<close>


lemma findIndex_Some: "findIndex P xs = Some i \<Longrightarrow> i < length xs \<and> P (xs ! i)"
  by (induction xs arbitrary: i) (auto split: if_splits)


lemma indexOf_Some: "indexOf xs x = Some i \<Longrightarrow> i < length xs \<and> xs ! i = x"
  unfolding indexOf_def by (drule findIndex_Some) simp










section \<open>Verification: fades\<close>

subsection \<open>Rounding to the nearest double\<close>















subsection \<open>The engine\<close>







lemma or_zero_not_NaN [simp]: "or_zero x \<noteq> NaN"
  by (cases x rule: or_zero.cases) simp_all







lemma cancelFade_fields [simp]:
  "fe_universe (cancelFade fe) = fe_universe fe"
  "activeFade (cancelFade fe) = None"
  "fadeResolve (cancelFade fe) = None"
  "promises (cancelFade fe) = promises fe"
  "resolved (cancelFade fe) = resolved fe @ (case fadeResolve fe of None \<Rightarrow> [] | Some p \<Rightarrow> [p])"
  by (simp_all add: cancelFade_def Let_def split: option.splits)

lemma completeFade_fields [simp]:
  "fe_universe (completeFade fe) = fe_universe fe"
  "activeFade (completeFade fe) = None"
  "fadeResolve (completeFade fe) = None"
  "promises (completeFade fe) = promises fe"
  "resolved (completeFade fe) = resolved fe @ (case fadeResolve fe of None \<Rightarrow> [] | Some p \<Rightarrow> [p])"
  by (simp_all add: completeFade_def Let_def split: option.splits)





lemma getRaw_read:
  "i < length (channels u) \<Longrightarrow>
   or_zero (array_read (getRawChannelsArray u) i) = Fin (of_nat (unat (channels u ! i)))"
  by (simp add: array_read_def getRawChannelsArray_def)






lemma fade_tick_promises [simp]: "promises (fade_tick now fe) = promises fe"
  by (simp add: fade_tick_def Let_def split: option.splits)











end
